theory Spec2Isabelle
  imports Complex_Main
begin

section \<open>JavaScript numbers\<close>

text \<open>
  The attendance engine computes on JavaScript \<open>number\<close>s. Finite numbers are modelled
  as exact reals: rounding of IEEE doubles and the sign of zero are not modelled. The
  values a division by zero produces (\<open>Infinity\<close>, \<open>-Infinity\<close>, \<open>NaN\<close>) and the
  explicit \<open>Infinity\<close> returned by \<open>calculateClassesToAttend\<close> are modelled, because
  HOL's \<open>x / 0 = 0\<close> is not what the program computes. A zero divisor is taken to be
  \<open>+0\<close>.
\<close>

datatype jsnum = Num real | PosInf | NegInf | NaN

fun jdiv :: "jsnum \<Rightarrow> jsnum \<Rightarrow> jsnum" where
  "jdiv NaN _ = NaN"
| "jdiv _ NaN = NaN"
| "jdiv (Num x) (Num y) =
     (if y \<noteq> 0 then Num (x / y)
      else if 0 < x then PosInf else if x < 0 then NegInf else NaN)"
| "jdiv (Num x) PosInf = Num 0"
| "jdiv (Num x) NegInf = Num 0"
| "jdiv PosInf (Num y) = (if 0 \<le> y then PosInf else NegInf)"
| "jdiv NegInf (Num y) = (if 0 \<le> y then NegInf else PosInf)"
| "jdiv PosInf PosInf = NaN"
| "jdiv PosInf NegInf = NaN"
| "jdiv NegInf PosInf = NaN"
| "jdiv NegInf NegInf = NaN"

fun jadd :: "jsnum \<Rightarrow> jsnum \<Rightarrow> jsnum" where
  "jadd NaN _ = NaN"
| "jadd _ NaN = NaN"
| "jadd (Num x) (Num y) = Num (x + y)"
| "jadd (Num x) PosInf = PosInf"
| "jadd (Num x) NegInf = NegInf"
| "jadd PosInf (Num y) = PosInf"
| "jadd NegInf (Num y) = NegInf"
| "jadd PosInf PosInf = PosInf"
| "jadd NegInf NegInf = NegInf"
| "jadd PosInf NegInf = NaN"
| "jadd NegInf PosInf = NaN"

fun jneg :: "jsnum \<Rightarrow> jsnum" where
  "jneg (Num x) = Num (- x)"
| "jneg PosInf = NegInf"
| "jneg NegInf = PosInf"
| "jneg NaN = NaN"

definition jsub :: "jsnum \<Rightarrow> jsnum \<Rightarrow> jsnum" where
  "jsub a b = jadd a (jneg b)"

text \<open>\<open>Math.floor\<close> and \<open>Math.ceil\<close> keep the infinities and \<open>NaN\<close>.\<close>

fun jfloor :: "jsnum \<Rightarrow> jsnum" where
  "jfloor (Num x) = Num (of_int \<lfloor>x\<rfloor>)"
| "jfloor v = v"

fun jceil :: "jsnum \<Rightarrow> jsnum" where
  "jceil (Num x) = Num (of_int \<lceil>x\<rceil>)"
| "jceil v = v"

text \<open>Comparison: every comparison with \<open>NaN\<close> is false.\<close>

fun jle :: "jsnum \<Rightarrow> jsnum \<Rightarrow> bool" where
  "jle NaN _ = False"
| "jle _ NaN = False"
| "jle (Num x) (Num y) = (x \<le> y)"
| "jle NegInf _ = True"
| "jle _ PosInf = True"
| "jle PosInf _ = False"
| "jle _ NegInf = False"

fun jlt :: "jsnum \<Rightarrow> jsnum \<Rightarrow> bool" where
  "jlt NaN _ = False"
| "jlt _ NaN = False"
| "jlt (Num x) (Num y) = (x < y)"
| "jlt PosInf _ = False"
| "jlt _ NegInf = False"
| "jlt NegInf _ = True"
| "jlt _ PosInf = True"

definition jge :: "jsnum \<Rightarrow> jsnum \<Rightarrow> bool" where
  "jge a b = jle b a"

definition jgt :: "jsnum \<Rightarrow> jsnum \<Rightarrow> bool" where
  "jgt a b = jlt b a"

text \<open>\<open>Math.max\<close> of two arguments: \<open>NaN\<close> as soon as one argument is \<open>NaN\<close>.\<close>

fun jmax :: "jsnum \<Rightarrow> jsnum \<Rightarrow> jsnum" where
  "jmax NaN _ = NaN"
| "jmax _ NaN = NaN"
| "jmax a b = (if jle a b then b else a)"

section \<open>Status classification (lib/utils.ts)\<close>

datatype status = Safe | Critical | Low | No_data

definition BUFFER :: real where
  "BUFFER = 5"

text \<open>
  \<open>calculateStatus(percentage, threshold, total = -1)\<close>: the third argument is
  optional; \<open>None\<close> is a call that omits it, and the default \<open>-1\<close> is then used.
\<close>

definition calculateStatus :: "real \<Rightarrow> real \<Rightarrow> real option \<Rightarrow> status" where
  "calculateStatus percentage threshold total_arg =
     (let total' = (case total_arg of None \<Rightarrow> - 1 | Some t \<Rightarrow> t) in
      if total' = 0 then No_data
      else if percentage \<ge> threshold + BUFFER then Safe
      else if percentage \<ge> threshold then Critical
      else Low)"

text \<open>
  The overall-attendance status of \<open>OverallStatsCard\<close>:
  \<open>calculateStatus(overallPercentage, globalThreshold)\<close>, a call with no \<open>total\<close>.
\<close>

definition overallStatus :: "real \<Rightarrow> real \<Rightarrow> status" where
  "overallStatus overallPercentage globalThreshold =
     calculateStatus overallPercentage globalThreshold None"

definition calculateClassesToBunk :: "real \<Rightarrow> real \<Rightarrow> real \<Rightarrow> jsnum" where
  "calculateClassesToBunk attended total' threshold =
     (let canBunk = jfloor (jsub (jdiv (Num (attended * 100)) (Num threshold)) (Num total'))
      in jmax (Num 0) canBunk)"

definition calculateClassesToAttend :: "real \<Rightarrow> real \<Rightarrow> real \<Rightarrow> jsnum" where
  "calculateClassesToAttend attended total' threshold =
     (if threshold \<ge> 100 then PosInf
      else
        let needed = jceil (jdiv (Num (total' * threshold - attended * 100))
                                 (Num (100 - threshold)))
        in jmax (Num 0) needed)"

section \<open>Subjects and thresholds (lib/utils.ts)\<close>

text \<open>
  Modelled from the spec: the declarations of \<open>Subject\<close> and \<open>Timetable\<close>
  (\<open>lib/types\<close>) are not among the sources. A subject is
  \<open>{name, code, attended, total, percentage}\<close> with \<open>attended\<close> and \<open>total\<close>
  integers \<open>\<ge> 0\<close> and \<open>percentage\<close> a float; the timetable maps a weekday index
  (0 = Monday .. 5 = Saturday) to the sequence of subject keys of that day.
  The field \<open>total\<close> is written \<open>total'\<close> here (and \<open>drop\<close> of an impact \<open>drop'\<close>
  below), the plain names being constants of HOL.
\<close>

record Subject =
  name :: string
  code :: string
  attended :: nat
  total' :: nat
  percentage :: real

type_synonym Timetable = "int \<rightharpoonup> string list"

text \<open>\<open>subject.code || subject.name\<close>: the empty string is falsy.\<close>

definition getSubjectKey :: "Subject \<Rightarrow> string" where
  "getSubjectKey subject = (if code subject \<noteq> [] then code subject else name subject)"

definition getEffectiveThreshold :: "Subject \<Rightarrow> real \<Rightarrow> (string \<rightharpoonup> real) \<Rightarrow> real" where
  "getEffectiveThreshold subject globalThreshold subjectThresholds =
     (let key = getSubjectKey subject in
      case subjectThresholds key of Some t \<Rightarrow> t | None \<Rightarrow> globalThreshold)"

section \<open>Per-slot verdict (components/TodayCard.tsx)\<close>

datatype verdict = Skip | Risky | Attend | No_data_verdict

text \<open>
  The source is a sequence of early returns; \<open>early\<close> is the return inside the
  \<open>status === 'safe'\<close> block, \<open>None\<close> when control falls through it.
\<close>

definition getVerdict :: "Subject \<Rightarrow> real \<Rightarrow> verdict" where
  "getVerdict subject threshold =
     (let status = calculateStatus (percentage subject) threshold
                     (Some (real (total' subject)))
      in if status = No_data then No_data_verdict
         else
           let early =
             (if status = Safe then
                (let classesToBunk = calculateClassesToBunk (real (attended subject))
                                       (real (total' subject)) threshold
                 in if jgt classesToBunk (Num 0) then Some Skip else None)
              else None)
           in case early of
                Some v \<Rightarrow> v
              | None \<Rightarrow> if status = Low then Attend else Risky)"

section \<open>Vacation days (lib/vacationPlanner.ts)\<close>

text \<open>
  A \<open>Date\<close> set to local midnight is modelled by its calendar day number, the days
  since 1970-01-01 (a Thursday): \<open>setDate(getDate() + n)\<close> adds \<open>n\<close> to it, and two
  such dates compare as their day numbers do. \<open>dateStr\<close> is a function of the day,
  so the set of holiday strings is modelled as the set of the days it names, and a
  \<open>VacationDay\<close> carries its day and not the string.
\<close>

type_synonym date = int

definition getDay :: "date \<Rightarrow> int" where
  "getDay d = (d + 4) mod 7"

record VacationDay =
  date :: date
  jsDay :: int
  timetableDayIndex :: int
  isSunday :: bool
  isHoliday :: bool

definition mkVacationDay :: "date \<Rightarrow> date set \<Rightarrow> VacationDay" where
  "mkVacationDay current holidays =
     (let jsDay = getDay current in
      \<lparr> date = current,
        jsDay = jsDay,
        timetableDayIndex = (if jsDay = 0 then - 1 else jsDay - 1),
        isSunday = (jsDay = 0),
        isHoliday = (current \<in> holidays) \<rparr>)"

text \<open>
  The loop \<open>while (current <= end)\<close>: \<open>current\<close> is at midnight and \<open>end\<close> at
  23:59:59.999 of the last day, so the test compares the day numbers.
\<close>

function getVacationDays_loop :: "date \<Rightarrow> date \<Rightarrow> date set \<Rightarrow> VacationDay list" where
  "getVacationDays_loop current end' holidays =
     (if current \<le> end'
      then mkVacationDay current holidays # getVacationDays_loop (current + 1) end' holidays
      else [])"
  by pat_completeness auto
termination
  by (relation "measure (\<lambda>(current, end', holidays). nat (end' + 1 - current))") auto

definition getVacationDays :: "date \<Rightarrow> date \<Rightarrow> date set \<Rightarrow> VacationDay list" where
  "getVacationDays startDate endDate holidays = getVacationDays_loop startDate endDate holidays"

section \<open>Impact of a vacation range (lib/vacationPlanner.ts)\<close>

text \<open>
  The fields of \<open>SubjectImpact\<close> are those of the object literals pushed by
  \<open>calculateVacationImpact\<close>. The two bunkable counts are results of
  \<open>calculateClassesToBunk\<close>.
\<close>

record SubjectImpact =
  code :: string
  name :: string
  classCount :: nat
  currentPct :: real
  projectedPct :: real
  drop' :: real
  currentBunkable :: jsnum
  projectedBunkable :: jsnum
  breachesThreshold :: bool
  isNoData :: bool

record VacationImpactResult =
  impacts :: "SubjectImpact list"
  totalClasses :: nat
  activeDays :: nat
  totalDays :: nat

text \<open>
  \<open>codeCount\<close> is an object used as a dictionary; \<open>Object.entries\<close> enumerates its
  string keys in the order of their first insertion, so it is an association list in
  that order. (Keys that are canonical array indices would be enumerated first, in
  numeric order, and keys that name a property of \<open>Object.prototype\<close> would start from
  the inherited value; subject keys such as \<open>CS101\<close> are neither. The order of the
  entries only decides the order of impacts that compare equal.)
  \<open>codeCount[code] = (codeCount[code] || 0) + 1\<close>:
\<close>

fun bump :: "(string \<times> nat) list \<Rightarrow> string \<Rightarrow> (string \<times> nat) list" where
  "bump [] c = [(c, 1)]"
| "bump ((k, n) # rest) c = (if k = c then (k, n + 1) # rest else (k, n) # bump rest c)"

text \<open>The body of the first loop; the state is \<open>(codeCount, totalClasses, activeDays)\<close>.\<close>

definition tallyDay ::
  "Timetable \<Rightarrow> (string \<times> nat) list \<times> nat \<times> nat \<Rightarrow> VacationDay
     \<Rightarrow> (string \<times> nat) list \<times> nat \<times> nat" where
  "tallyDay timetable st day =
     (case st of (codeCount, totalClasses', activeDays') \<Rightarrow>
        if isSunday day \<or> isHoliday day then st
        else
          let codes = (case timetable (timetableDayIndex day) of
                         Some cs \<Rightarrow> cs | None \<Rightarrow> [])
          in if length codes = 0 then st
             else (foldl bump codeCount codes, totalClasses' + length codes, activeDays' + 1))"

text \<open>
  The second loop, over \<open>Object.entries(codeCount)\<close>. Local variables that share a
  name with a record field carry a prime.
\<close>

fun collectImpacts ::
  "(string \<rightharpoonup> Subject) \<Rightarrow> real \<Rightarrow> (string \<rightharpoonup> real) \<Rightarrow> (string \<times> nat) list
     \<Rightarrow> SubjectImpact list" where
  "collectImpacts subjectMap globalThreshold subjectThresholds [] = []"
| "collectImpacts subjectMap globalThreshold subjectThresholds ((code', count) # rest) =
     (case subjectMap code' of
        None \<Rightarrow> collectImpacts subjectMap globalThreshold subjectThresholds rest
      | Some subject \<Rightarrow>
          let threshold = getEffectiveThreshold subject globalThreshold subjectThresholds;
              isNoData' = (total' subject = 0)
          in if isNoData' then
               \<lparr> code = code', name = Subject.name subject, classCount = count,
                 currentPct = 0, projectedPct = 0, drop' = 0,
                 currentBunkable = Num 0, projectedBunkable = Num 0,
                 breachesThreshold = False, isNoData = True \<rparr>
               # collectImpacts subjectMap globalThreshold subjectThresholds rest
             else
               let currentPct' = (real (attended subject) / real (total' subject)) * 100;
                   projectedPct' =
                     (real (attended subject) / (real (total' subject) + real count)) * 100;
                   drop = currentPct' - projectedPct';
                   currentBunkable' = calculateClassesToBunk (real (attended subject))
                                        (real (total' subject)) threshold;
                   projectedBunkable' = calculateClassesToBunk (real (attended subject))
                                          (real (total' subject) + real count) threshold;
                   breachesThreshold' = (projectedPct' < threshold)
               in \<lparr> code = code', name = Subject.name subject, classCount = count,
                    currentPct = currentPct', projectedPct = projectedPct', drop' = drop,
                    currentBunkable = currentBunkable',
                    projectedBunkable = projectedBunkable',
                    breachesThreshold = breachesThreshold', isNoData = False \<rparr>
                  # collectImpacts subjectMap globalThreshold subjectThresholds rest)"

text \<open>
  \<open>Array.prototype.sort\<close> with a comparator is stable, and for a consistent
  comparator its result is the one stable arrangement; an insertion sort that puts an
  element before the first later element it does not compare greater than computes it.
\<close>

fun insert_by :: "('a \<Rightarrow> 'a \<Rightarrow> real) \<Rightarrow> 'a \<Rightarrow> 'a list \<Rightarrow> 'a list" where
  "insert_by cmp x [] = [x]"
| "insert_by cmp x (y # ys) = (if cmp x y \<le> 0 then x # y # ys else y # insert_by cmp x ys)"

definition sort_by :: "('a \<Rightarrow> 'a \<Rightarrow> real) \<Rightarrow> 'a list \<Rightarrow> 'a list" where
  "sort_by cmp xs = foldr (insert_by cmp) xs []"

definition impactCompare :: "SubjectImpact \<Rightarrow> SubjectImpact \<Rightarrow> real" where
  "impactCompare a b =
     (if isNoData a \<noteq> isNoData b then (if isNoData a then 1 else - 1)
      else if breachesThreshold a \<noteq> breachesThreshold b
           then (if breachesThreshold a then - 1 else 1)
      else drop' b - drop' a)"

definition calculateVacationImpact ::
  "VacationDay list \<Rightarrow> Timetable \<Rightarrow> (string \<rightharpoonup> Subject) \<Rightarrow> real \<Rightarrow> (string \<rightharpoonup> real)
     \<Rightarrow> VacationImpactResult" where
  "calculateVacationImpact vacationDays timetable subjectMap globalThreshold subjectThresholds =
     (case foldl (tallyDay timetable) ([], 0, 0) vacationDays of
        (codeCount, totalClasses', activeDays') \<Rightarrow>
          let impacts' = collectImpacts subjectMap globalThreshold subjectThresholds codeCount
          in \<lparr> impacts = sort_by impactCompare impacts',
               totalClasses = totalClasses',
               activeDays = activeDays',
               totalDays = length vacationDays \<rparr>)"

section \<open>Search for the best vacation windows (lib/vacationPlanner.ts)\<close>

record VacationWindow =
  startDate :: date
  endDate :: date
  duration :: int
  totalClasses :: nat
  atRiskCount :: nat
  penalty :: real

text \<open>
  \<open>subjectMap.get(impact.code)!\<close> is passed to \<open>getEffectiveThreshold\<close>, which reads
  \<open>subject.code\<close>: for a code missing from the map this is a \<open>TypeError\<close>.
\<close>

datatype error = TypeError

text \<open>The scoring loop over \<open>result.impacts\<close>, with the running \<open>penalty\<close>.\<close>

fun penaltyLoop ::
  "(string \<rightharpoonup> Subject) \<Rightarrow> real \<Rightarrow> (string \<rightharpoonup> real) \<Rightarrow> SubjectImpact list \<Rightarrow> real
     \<Rightarrow> error + real" where
  "penaltyLoop subjectMap globalThreshold subjectThresholds [] penalty' = Inr penalty'"
| "penaltyLoop subjectMap globalThreshold subjectThresholds (impact # rest) penalty' =
     (if isNoData impact
      then penaltyLoop subjectMap globalThreshold subjectThresholds rest penalty'
      else
        case subjectMap (code impact) of
          None \<Rightarrow> Inl TypeError
        | Some subject \<Rightarrow>
            let threshold = getEffectiveThreshold subject globalThreshold subjectThresholds;
                margin = currentPct impact - threshold;
                weight = (if margin < 0 then 3 else if margin < 5 then 2 else 1)
            in penaltyLoop subjectMap globalThreshold subjectThresholds rest
                 (penalty' + drop' impact * weight * real (classCount impact)))"

text \<open>
  One pass of the body of the \<open>while (true)\<close> loop after its exit test: the candidate
  for the window of \<open>size'\<close> days that starts at \<open>current\<close>.
\<close>

definition scoreWindow ::
  "Timetable \<Rightarrow> (string \<rightharpoonup> Subject) \<Rightarrow> real \<Rightarrow> (string \<rightharpoonup> real) \<Rightarrow> date \<Rightarrow> int
     \<Rightarrow> error + VacationWindow" where
  "scoreWindow timetable subjectMap globalThreshold subjectThresholds current size' =
     (let windowEnd = current + size' - 1;
          days = getVacationDays current windowEnd {};
          result = calculateVacationImpact days timetable subjectMap globalThreshold
                     subjectThresholds
      in case penaltyLoop subjectMap globalThreshold subjectThresholds (impacts result) 0 of
           Inl e \<Rightarrow> Inl e
         | Inr penalty' \<Rightarrow>
             let atRiskCount' =
                   length (filter (\<lambda>i. breachesThreshold i \<and> \<not> isNoData i) (impacts result))
             in Inr \<lparr> startDate = current, endDate = windowEnd, duration = size',
                      totalClasses = VacationImpactResult.totalClasses result,
                      atRiskCount = atRiskCount', penalty = penalty' \<rparr>)"

function scanWindows ::
  "Timetable \<Rightarrow> (string \<rightharpoonup> Subject) \<Rightarrow> real \<Rightarrow> (string \<rightharpoonup> real) \<Rightarrow> date \<Rightarrow> int \<Rightarrow> date
     \<Rightarrow> VacationWindow list \<Rightarrow> error + VacationWindow list" where
  "scanWindows timetable subjectMap globalThreshold subjectThresholds endScan size' current
       candidates =
     (if current + size' - 1 > endScan then Inr candidates
      else
        case scoreWindow timetable subjectMap globalThreshold subjectThresholds current size' of
          Inl e \<Rightarrow> Inl e
        | Inr w \<Rightarrow>
            scanWindows timetable subjectMap globalThreshold subjectThresholds endScan size'
              (current + 1) (candidates @ [w]))"
  by pat_completeness auto
termination
  by (relation "measure (\<lambda>(timetable, subjectMap, globalThreshold, subjectThresholds,
                           endScan, size', current, candidates).
                           nat (endScan + 2 - current - size'))") auto

text \<open>The loop \<open>for (const size of windowSizes)\<close>; every size starts from tomorrow.\<close>

fun scanSizes ::
  "Timetable \<Rightarrow> (string \<rightharpoonup> Subject) \<Rightarrow> real \<Rightarrow> (string \<rightharpoonup> real) \<Rightarrow> date \<Rightarrow> date
     \<Rightarrow> int list \<Rightarrow> VacationWindow list \<Rightarrow> error + VacationWindow list" where
  "scanSizes timetable subjectMap globalThreshold subjectThresholds today endScan []
       candidates = Inr candidates"
| "scanSizes timetable subjectMap globalThreshold subjectThresholds today endScan
       (size' # sizes) candidates =
     (case scanWindows timetable subjectMap globalThreshold subjectThresholds endScan size'
             (today + 1) candidates of
        Inl e \<Rightarrow> Inl e
      | Inr candidates' \<Rightarrow>
          scanSizes timetable subjectMap globalThreshold subjectThresholds today endScan
            sizes candidates')"

definition overlaps :: "VacationWindow \<Rightarrow> VacationWindow \<Rightarrow> bool" where
  "overlaps c r = (startDate c \<le> endDate r \<and> endDate c \<ge> startDate r)"

text \<open>The selection loop, with its \<open>break\<close> once three windows are chosen.\<close>

fun selectWindows :: "VacationWindow list \<Rightarrow> VacationWindow list \<Rightarrow> VacationWindow list" where
  "selectWindows [] results = results"
| "selectWindows (c # cs) results =
     (if \<not> list_ex (\<lambda>r. overlaps c r) results
      then (let results' = results @ [c]
            in if length results' \<ge> 3 then results' else selectWindows cs results')
      else selectWindows cs results)"

text \<open>
  The first half of \<open>findBestVacationWindows\<close>, up to the sort: the list
  \<open>candidates\<close>. \<open>today\<close> is the day \<open>new Date()\<close> falls on.
\<close>

definition scanCandidates ::
  "date \<Rightarrow> Timetable \<Rightarrow> (string \<rightharpoonup> Subject) \<Rightarrow> real \<Rightarrow> (string \<rightharpoonup> real)
     \<Rightarrow> int list \<Rightarrow> int \<Rightarrow> error + VacationWindow list" where
  "scanCandidates today timetable subjectMap globalThreshold subjectThresholds windowSizes
       weeksAhead =
     (let endScan = today + weeksAhead * 7
      in scanSizes timetable subjectMap globalThreshold subjectThresholds today endScan
           windowSizes [])"

text \<open>The two optional arguments are \<open>None\<close> when the caller omits them.\<close>

definition findBestVacationWindows ::
  "date \<Rightarrow> Timetable \<Rightarrow> (string \<rightharpoonup> Subject) \<Rightarrow> real \<Rightarrow> (string \<rightharpoonup> real)
     \<Rightarrow> int list option \<Rightarrow> int option \<Rightarrow> error + VacationWindow list" where
  "findBestVacationWindows today timetable subjectMap globalThreshold subjectThresholds
       windowSizes_arg weeksAhead_arg =
     (let windowSizes = (case windowSizes_arg of None \<Rightarrow> [3, 5, 7] | Some ws \<Rightarrow> ws);
          weeksAhead = (case weeksAhead_arg of None \<Rightarrow> 3 | Some n \<Rightarrow> n)
      in case scanCandidates today timetable subjectMap globalThreshold subjectThresholds
                windowSizes weeksAhead of
           Inl e \<Rightarrow> Inl e
         | Inr candidates \<Rightarrow>
             Inr (selectWindows (sort_by (\<lambda>a b. penalty a - penalty b) candidates) []))"

section \<open>Properties stated by the specification\<close>

text \<open>
  \<open>(attended + k) * 100 / (total + k) >= threshold\<close>, evaluated as the program would
  (\<open>att\<close> and \<open>tot\<close> are the attended and total counts):
  after \<open>k\<close> more classes, all attended, the percentage has reached the threshold.
\<close>

definition reachesThreshold :: "real \<Rightarrow> real \<Rightarrow> real \<Rightarrow> real \<Rightarrow> bool" where
  "reachesThreshold att tot threshold k =
     jge (jdiv (Num ((att + k) * 100)) (Num (tot + k))) (Num threshold)"

text \<open>
  \<open>attended * 100 / (total + k) >= threshold\<close>: after \<open>k\<close> more classes, all missed,
  the percentage is still at or above the threshold.
\<close>

definition staysAtThreshold :: "real \<Rightarrow> real \<Rightarrow> real \<Rightarrow> jsnum \<Rightarrow> bool" where
  "staysAtThreshold att tot threshold k =
     jge (jdiv (Num (att * 100)) (jadd (Num tot) k)) (Num threshold)"

text \<open>The weight of an impact, from the margin of its subject over the threshold.\<close>

definition weightOf :: "real \<Rightarrow> real" where
  "weightOf margin = (if margin < 0 then 3 else if margin < 5 then 2 else 1)"

text \<open>
  The contribution \<open>drop * weight * classCount\<close> of one impact to the penalty, the
  threshold being the effective threshold of the subject the impact's code names.
\<close>

definition impactPenalty ::
  "(string \<rightharpoonup> Subject) \<Rightarrow> real \<Rightarrow> (string \<rightharpoonup> real) \<Rightarrow> SubjectImpact \<Rightarrow> real" where
  "impactPenalty subjectMap globalThreshold subjectThresholds impact =
     (case subjectMap (code impact) of
        None \<Rightarrow> 0
      | Some subject \<Rightarrow>
          drop' impact
          * weightOf (currentPct impact
                      - getEffectiveThreshold subject globalThreshold subjectThresholds)
          * real (classCount impact))"

text \<open>
  The penalty the specification gives a window: the sum of the contributions of the
  impacts with data, the impacts being those of the days from the window's start to its
  end, no day a holiday.
\<close>

definition windowPenalty ::
  "Timetable \<Rightarrow> (string \<rightharpoonup> Subject) \<Rightarrow> real \<Rightarrow> (string \<rightharpoonup> real) \<Rightarrow> VacationWindow \<Rightarrow> real" where
  "windowPenalty timetable subjectMap globalThreshold subjectThresholds w =
     sum_list (map (impactPenalty subjectMap globalThreshold subjectThresholds)
       (filter (\<lambda>i. \<not> isNoData i)
          (impacts (calculateVacationImpact (getVacationDays (startDate w) (endDate w) {})
             timetable subjectMap globalThreshold subjectThresholds))))"

section \<open>A worked example\<close>

text \<open>
  A Monday timetable of six slots: three subjects with classes held, two subjects with
  no classes held yet, and one code (\<open>GHOST\<close>) that names no subject.
\<close>

definition ex_timetable :: Timetable where
  "ex_timetable = [0 \<mapsto> [''CS101'', ''CS102'', ''CS103'', ''CS104'', ''GHOST'', ''CS105'']]"

definition ex_subjects :: "string \<rightharpoonup> Subject" where
  "ex_subjects =
     [''CS101'' \<mapsto> \<lparr> Subject.name = ''Algorithms'', code = ''CS101'', attended = 9,
                     total' = 10, percentage = 90 \<rparr>,
      ''CS102'' \<mapsto> \<lparr> Subject.name = ''Databases'', code = ''CS102'', attended = 5,
                     total' = 10, percentage = 50 \<rparr>,
      ''CS103'' \<mapsto> \<lparr> Subject.name = ''Networks'', code = ''CS103'', attended = 6,
                     total' = 10, percentage = 60 \<rparr>,
      ''CS104'' \<mapsto> \<lparr> Subject.name = ''Compilers'', code = ''CS104'', attended = 0,
                     total' = 0, percentage = 0 \<rparr>,
      ''CS105'' \<mapsto> \<lparr> Subject.name = ''Graphics'', code = ''CS105'', attended = 0,
                     total' = 0, percentage = 0 \<rparr>]"

text \<open>Day 4 is Monday, 5 January 1970.\<close>

definition ex_monday :: "VacationDay list" where
  "ex_monday = getVacationDays 4 4 {}"

section \<open>Status classification: theorems\<close>

text \<open>
  C2. If \<open>total = 0\<close>, \<open>calculateStatus\<close> returns \<open>no_data\<close> whatever the percentage
  and the threshold are. Otherwise it returns \<open>safe\<close> if
  \<open>percentage \<ge> threshold + 5\<close>, \<open>critical\<close> if
  \<open>threshold \<le> percentage < threshold + 5\<close>, and \<open>low\<close> if \<open>percentage < threshold\<close>.
\<close>

theorem calculateStatus_cases:
  "(tot = 0 \<longrightarrow> calculateStatus pct threshold (Some tot) = No_data) \<and>
   (tot \<noteq> 0 \<longrightarrow>
      (pct \<ge> threshold + 5 \<longrightarrow> calculateStatus pct threshold (Some tot) = Safe) \<and>
      (threshold \<le> pct \<and> pct < threshold + 5 \<longrightarrow>
         calculateStatus pct threshold (Some tot) = Critical) \<and>
      (pct < threshold \<longrightarrow> calculateStatus pct threshold (Some tot) = Low))"
  by (simp add: calculateStatus_def BUFFER_def)

text \<open>C2 at \<open>total = 0\<close>, and at 80, 77 and 72 percent of 25 classes with threshold 75.\<close>

theorem calculateStatus_cases_witness:
  "calculateStatus 80 75 (Some 0) = No_data \<and>
   calculateStatus 80 75 (Some 25) = Safe \<and>
   calculateStatus 77 75 (Some 25) = Critical \<and>
   calculateStatus 72 75 (Some 25) = Low"
  using calculateStatus_cases [where tot = 0 and pct = 80 and threshold = 75]
        calculateStatus_cases [where tot = 25 and pct = 80 and threshold = 75]
        calculateStatus_cases [where tot = 25 and pct = 77 and threshold = 75]
        calculateStatus_cases [where tot = 25 and pct = 72 and threshold = 75]
  by simp

text \<open>
  C10. \<open>calculateStatus\<close> returns \<open>no_data\<close> only when its \<open>total\<close> argument is
  given and is exactly 0. For every negative \<open>total\<close>, and for a call that omits the
  argument (the default is \<open>-1\<close>, as in the overall-attendance status of
  \<open>OverallStatsCard\<close>), the result is \<open>safe\<close>, \<open>critical\<close> or \<open>low\<close> and depends on
  the percentage and the threshold only.
\<close>

theorem calculateStatus_no_data_only_for_zero:
  "(calculateStatus pct threshold total_arg = No_data \<longrightarrow> total_arg = Some 0) \<and>
   (\<forall>t<0. calculateStatus pct threshold (Some t) =
      (if pct \<ge> threshold + 5 then Safe
       else if pct \<ge> threshold then Critical else Low)) \<and>
   calculateStatus pct threshold None =
      (if pct \<ge> threshold + 5 then Safe
       else if pct \<ge> threshold then Critical else Low) \<and>
   overallStatus pct threshold =
      (if pct \<ge> threshold + 5 then Safe
       else if pct \<ge> threshold then Critical else Low)"
  by (auto simp add: calculateStatus_def overallStatus_def BUFFER_def split: option.splits)

text \<open>
  C10 at \<open>total = -1\<close>, at \<open>total = -7\<close>, at an omitted \<open>total\<close>, and for an overall
  percentage of 0 (no classes held in any subject).
\<close>

theorem calculateStatus_no_data_only_for_zero_witness:
  "calculateStatus 76 75 (Some (- 1)) = Critical \<and>
   calculateStatus 90 75 (Some (- 7)) = Safe \<and> calculateStatus 0 75 None = Low \<and>
   overallStatus 0 75 = Low"
proof -
  have neg1: "(- 1 :: real) < 0" and neg7: "(- 7 :: real) < 0"
    by simp_all
  from calculateStatus_no_data_only_for_zero [where pct = 76 and threshold = 75] neg1
  have a: "calculateStatus 76 75 (Some (- 1)) = Critical" by simp
  from calculateStatus_no_data_only_for_zero [where pct = 90 and threshold = 75] neg7
  have b: "calculateStatus 90 75 (Some (- 7)) = Safe" by simp
  from calculateStatus_no_data_only_for_zero [where pct = 0 and threshold = 75]
  have c: "calculateStatus 0 75 None = Low" and d: "overallStatus 0 75 = Low" by simp_all
  from a b c d show ?thesis by simp
qed

section \<open>Classes to attend: theorems\<close>

lemma calculateClassesToAttend_finite:
  "threshold < 100 \<Longrightarrow>
     calculateClassesToAttend att tot threshold =
       Num (of_int (max 0 \<lceil>(tot * threshold - att * 100) / (100 - threshold)\<rceil>))"
  by (simp add: calculateClassesToAttend_def max_def)

lemma reachesThreshold_iff:
  assumes "0 < tot + k" "threshold < 100"
  shows "reachesThreshold att tot threshold k \<longleftrightarrow>
           (tot * threshold - att * 100) / (100 - threshold) \<le> k"
proof -
  have "reachesThreshold att tot threshold k \<longleftrightarrow> threshold \<le> (att + k) * 100 / (tot + k)"
    using assms by (simp add: reachesThreshold_def jge_def)
  also have "\<dots> \<longleftrightarrow> threshold * (tot + k) \<le> (att + k) * 100"
    using assms by (simp add: pos_le_divide_eq)
  also have "\<dots> \<longleftrightarrow> tot * threshold - att * 100 \<le> k * (100 - threshold)"
    by (simp add: algebra_simps)
  also have "\<dots> \<longleftrightarrow> (tot * threshold - att * 100) / (100 - threshold) \<le> k"
    using assms by (simp add: pos_divide_le_eq)
  finally show ?thesis .
qed

text \<open>
  C3, amended. \<open>calculateClassesToAttend\<close> returns \<open>+Infinity\<close> if and only if
  \<open>threshold \<ge> 100\<close>. Otherwise, for \<open>attended \<ge> 0\<close>, \<open>total \<ge> attended\<close> and
  \<open>total > 0\<close>, the result is the least non-negative integer \<open>k\<close> with
  \<open>(attended + k) * 100 / (total + k) \<ge> threshold\<close>.
\<close>

theorem calculateClassesToAttend_minimal:
  "(calculateClassesToAttend att tot threshold = PosInf \<longleftrightarrow> threshold \<ge> 100) \<and>
   (threshold < 100 \<and> 0 \<le> att \<and> att \<le> tot \<and> 0 < tot \<longrightarrow>
      (\<exists>k::nat. calculateClassesToAttend att tot threshold = Num (real k) \<and>
         reachesThreshold att tot threshold (real k) \<and>
         (\<forall>j<k. \<not> reachesThreshold att tot threshold (real j))))"
proof (intro conjI impI)
  show "calculateClassesToAttend att tot threshold = PosInf \<longleftrightarrow> threshold \<ge> 100"
    by (cases "threshold < 100") (simp_all add: calculateClassesToAttend_finite, simp add: calculateClassesToAttend_def)
next
  assume h: "threshold < 100 \<and> 0 \<le> att \<and> att \<le> tot \<and> 0 < tot"
  define q where "q = (tot * threshold - att * 100) / (100 - threshold)"
  define k where "k = nat (max 0 \<lceil>q\<rceil>)"
  have ret: "calculateClassesToAttend att tot threshold = Num (real k)"
    using h by (simp add: calculateClassesToAttend_finite k_def q_def)
  have qk: "q \<le> real k"
    unfolding k_def by linarith
  have reach: "reachesThreshold att tot threshold (real k)"
    using h qk by (simp add: reachesThreshold_iff q_def)
  have minimal: "\<not> reachesThreshold att tot threshold (real j)" if "j < k" for j
  proof -
    have "int j < \<lceil>q\<rceil>" using that unfolding k_def by linarith
    then have "real j < q" by linarith
    then show ?thesis using h by (simp add: reachesThreshold_iff q_def)
  qed
  from ret reach minimal
  show "\<exists>k::nat. calculateClassesToAttend att tot threshold = Num (real k) \<and>
         reachesThreshold att tot threshold (real k) \<and>
         (\<forall>j<k. \<not> reachesThreshold att tot threshold (real j))"
    by blast
qed

text \<open>C3 at 18 of 25 classes: threshold 100 gives infinity, threshold 75 gives 3.\<close>

theorem calculateClassesToAttend_minimal_witness:
  "calculateClassesToAttend 18 25 100 = PosInf \<and>
   calculateClassesToAttend 18 25 75 = Num 3 \<and>
   reachesThreshold 18 25 75 3 \<and> \<not> reachesThreshold 18 25 75 2"
proof -
  have inf: "calculateClassesToAttend 18 25 100 = PosInf"
    using calculateClassesToAttend_minimal [where att = 18 and tot = 25 and threshold = 100]
    by simp
  have v: "calculateClassesToAttend 18 25 75 = Num 3"
    by (simp add: calculateClassesToAttend_def)
  from calculateClassesToAttend_minimal [where att = 18 and tot = 25 and threshold = 75]
  obtain k :: nat where k: "calculateClassesToAttend 18 25 75 = Num (real k)"
    and r: "reachesThreshold 18 25 75 (real k)"
    and m: "\<forall>j<k. \<not> reachesThreshold 18 25 75 (real j)"
    by auto
  from k v have k3: "k = 3" by simp
  have "(2::nat) < k" using k3 by simp
  with m have "\<not> reachesThreshold 18 25 75 (real (2::nat))" by blast
  then have "\<not> reachesThreshold 18 25 75 2" by simp
  with inf v r k3 show ?thesis by simp
qed

text \<open>
  C3 as stated fails at \<open>attended = 0\<close>, \<open>total = 0\<close>, \<open>threshold = 75\<close>: the result
  is 0, and \<open>(0 + 0) * 100 / (0 + 0)\<close> is \<open>NaN\<close>, which is not \<open>\<ge> 75\<close>.
\<close>

theorem calculateClassesToAttend_zero_total_counterexample:
  "(0::real) \<le> 0 \<and> (0::real) \<le> 0 \<and> (75::real) < 100 \<and>
   calculateClassesToAttend 0 0 75 = Num 0 \<and> \<not> reachesThreshold 0 0 75 0"
  by (simp add: calculateClassesToAttend_def reachesThreshold_def jge_def)

section \<open>Classes to bunk: theorems\<close>

lemma calculateClassesToBunk_pos_threshold:
  "0 < threshold \<Longrightarrow>
     calculateClassesToBunk att tot threshold =
       Num (of_int (max 0 \<lfloor>att * 100 / threshold - tot\<rfloor>))"
  by (simp add: calculateClassesToBunk_def jsub_def max_def)

lemma bunk_at_zero_threshold:
  "0 < att \<Longrightarrow> calculateClassesToBunk att tot 0 = PosInf"
  by (simp add: calculateClassesToBunk_def jsub_def)

text \<open>
  C4, amended. For \<open>attended \<ge> 0\<close>, \<open>total \<ge> attended\<close> and \<open>threshold\<close> in 0..100,
  where \<open>threshold\<close> and \<open>attended\<close> are not both 0, the result \<open>k\<close> of
  \<open>calculateClassesToBunk\<close> is \<open>\<ge> 0\<close>; it is \<open>floor(attended * 100 / threshold - total)\<close>
  clamped to non-negative (\<open>+Infinity\<close> for \<open>threshold = 0\<close>); and whenever \<open>k > 0\<close>,
  \<open>attended * 100 / (total + k) \<ge> threshold\<close>.
\<close>

theorem calculateClassesToBunk_bound:
  assumes "0 \<le> att" and "att \<le> tot" and "0 \<le> threshold" and "threshold \<le> 100"
    and "0 < threshold \<or> 0 < att"
  shows "jge (calculateClassesToBunk att tot threshold) (Num 0) \<and>
         calculateClassesToBunk att tot threshold =
           (if threshold = 0 then PosInf
            else Num (of_int (max 0 \<lfloor>att * 100 / threshold - tot\<rfloor>))) \<and>
         (jgt (calculateClassesToBunk att tot threshold) (Num 0) \<longrightarrow>
            staysAtThreshold att tot threshold (calculateClassesToBunk att tot threshold))"
proof (cases "threshold = 0")
  case True
  with assms have "0 < att" by simp
  then have "calculateClassesToBunk att tot threshold = PosInf"
    using True by (simp add: bunk_at_zero_threshold)
  then show ?thesis
    using True by (simp add: jge_def jgt_def staysAtThreshold_def)
next
  case False
  with assms have pos: "0 < threshold" by simp
  define q where "q = att * 100 / threshold - tot"
  have k: "calculateClassesToBunk att tot threshold = Num (of_int (max 0 \<lfloor>q\<rfloor>))"
    using pos by (simp add: calculateClassesToBunk_pos_threshold q_def)
  have stays: "staysAtThreshold att tot threshold (Num (of_int (max 0 \<lfloor>q\<rfloor>)))"
    if "0 < max 0 \<lfloor>q\<rfloor>"
  proof -
    have fl: "0 < \<lfloor>q\<rfloor>" using that by (simp add: max_def split: if_splits)
    then have m: "max 0 \<lfloor>q\<rfloor> = \<lfloor>q\<rfloor>" by (simp add: max_def)
    have d: "0 < tot + of_int \<lfloor>q\<rfloor>" using fl assms by linarith
    have "tot + of_int \<lfloor>q\<rfloor> \<le> att * 100 / threshold"
      unfolding q_def by linarith
    then have "(tot + of_int \<lfloor>q\<rfloor>) * threshold \<le> att * 100"
      using pos by (simp add: pos_le_divide_eq)
    then have "threshold \<le> att * 100 / (tot + of_int \<lfloor>q\<rfloor>)"
      using d by (simp add: pos_le_divide_eq mult.commute)
    then show ?thesis
      using d by (simp add: staysAtThreshold_def jge_def m)
  qed
  have nonneg: "jge (Num (of_int (max 0 \<lfloor>q\<rfloor>))) (Num 0)"
    by (simp add: jge_def)
  have pos_iff: "jgt (Num (of_int (max 0 \<lfloor>q\<rfloor>))) (Num 0) \<longleftrightarrow> 0 < max 0 \<lfloor>q\<rfloor>"
    by (simp add: jgt_def)
  have shape: "Num (real_of_int (max 0 \<lfloor>q\<rfloor>)) =
        (if threshold = 0 then PosInf
         else Num (of_int (max 0 \<lfloor>att * 100 / threshold - tot\<rfloor>)))"
    using False by (simp add: q_def)
  show ?thesis
    unfolding k using nonneg pos_iff shape stays by blast
qed

text \<open>C4 at 20 of 25 classes with threshold 75: one class can be missed.\<close>

theorem calculateClassesToBunk_bound_witness:
  "jge (calculateClassesToBunk 20 25 75) (Num 0) \<and>
   calculateClassesToBunk 20 25 75 = Num 1 \<and>
   staysAtThreshold 20 25 75 (calculateClassesToBunk 20 25 75)"
proof -
  have k: "calculateClassesToBunk 20 25 75 = Num 1"
    by (simp add: calculateClassesToBunk_def jsub_def)
  have "jgt (calculateClassesToBunk 20 25 75) (Num 0)"
    by (simp add: k jgt_def)
  with calculateClassesToBunk_bound [where att = 20 and tot = 25 and threshold = 75] k
  show ?thesis by simp
qed

text \<open>
  C4 as stated fails at \<open>attended = 0\<close>, \<open>total = 10\<close>, \<open>threshold = 0\<close>:
  \<open>0 * 100 / 0\<close> is \<open>NaN\<close>, so is the result, and \<open>NaN \<ge> 0\<close> is false.
\<close>

theorem calculateClassesToBunk_zero_threshold_counterexample:
  "(0::real) \<le> 0 \<and> (0::real) \<le> 10 \<and> (0::real) \<le> 0 \<and> (0::real) \<le> 100 \<and>
   calculateClassesToBunk 0 10 0 = NaN \<and> \<not> jge (calculateClassesToBunk 0 10 0) (Num 0)"
  by (simp add: calculateClassesToBunk_def jsub_def jge_def)

section \<open>Per-slot verdict: theorems\<close>

text \<open>
  C7. The verdict of \<open>getVerdict\<close> is \<open>no_data\<close> if the subject has \<open>total = 0\<close>;
  else \<open>skip\<close> if the status is \<open>safe\<close> and
  \<open>calculateClassesToBunk(attended, total, threshold) > 0\<close>; else \<open>attend\<close> if the
  status is \<open>low\<close>; else \<open>risky\<close>.
\<close>

theorem getVerdict_cases:
  "getVerdict subject threshold =
     (let status = calculateStatus (percentage subject) threshold (Some (real (total' subject)))
      in if total' subject = 0 then No_data_verdict
         else if status = Safe \<and>
                 jgt (calculateClassesToBunk (real (attended subject)) (real (total' subject))
                        threshold) (Num 0)
              then Skip
         else if status = Low then Attend
         else Risky)"
  by (simp add: getVerdict_def calculateStatus_def Let_def)

text \<open>C7 on four subjects with threshold 75: skip, no data, attend and risky.\<close>

theorem getVerdict_cases_witness:
  "getVerdict \<lparr> Subject.name = ''Maths'', code = ''MA101'', attended = 20, total' = 25,
                percentage = 80 \<rparr> 75 = Skip \<and>
   getVerdict \<lparr> Subject.name = ''Maths'', code = ''MA101'', attended = 0, total' = 0,
                percentage = 0 \<rparr> 75 = No_data_verdict \<and>
   getVerdict \<lparr> Subject.name = ''Maths'', code = ''MA101'', attended = 18, total' = 25,
                percentage = 72 \<rparr> 75 = Attend \<and>
   getVerdict \<lparr> Subject.name = ''Maths'', code = ''MA101'', attended = 19, total' = 25,
                percentage = 76 \<rparr> 75 = Risky"
  using getVerdict_cases [where threshold = 75 and subject =
          "\<lparr> Subject.name = ''Maths'', code = ''MA101'', attended = 20, total' = 25,
             percentage = 80 \<rparr>"]
        getVerdict_cases [where threshold = 75 and subject =
          "\<lparr> Subject.name = ''Maths'', code = ''MA101'', attended = 0, total' = 0,
             percentage = 0 \<rparr>"]
        getVerdict_cases [where threshold = 75 and subject =
          "\<lparr> Subject.name = ''Maths'', code = ''MA101'', attended = 18, total' = 25,
             percentage = 72 \<rparr>"]
        getVerdict_cases [where threshold = 75 and subject =
          "\<lparr> Subject.name = ''Maths'', code = ''MA101'', attended = 19, total' = 25,
             percentage = 76 \<rparr>"]
  by (simp add: calculateStatus_def BUFFER_def calculateClassesToBunk_def jsub_def jgt_def)

section \<open>The comparator sort: lemmas\<close>

lemma set_insert_by: "set (insert_by cmp x xs) = insert x (set xs)"
  by (induction xs) auto

lemma set_sort_by: "set (sort_by cmp xs) = set xs"
  by (induction xs) (simp_all add: sort_by_def set_insert_by)

lemma length_insert_by: "length (insert_by cmp x xs) = Suc (length xs)"
  by (induction xs) auto

lemma length_sort_by: "length (sort_by cmp xs) = length xs"
  by (induction xs) (simp_all add: sort_by_def length_insert_by)

lemma sorted_wrt_insert_by:
  assumes tot: "\<And>a b. cmp a b \<le> 0 \<or> cmp b a \<le> 0"
    and trans: "\<And>a b c. cmp a b \<le> 0 \<Longrightarrow> cmp b c \<le> 0 \<Longrightarrow> cmp a c \<le> 0"
    and sorted: "sorted_wrt (\<lambda>a b. cmp a b \<le> 0) xs"
  shows "sorted_wrt (\<lambda>a b. cmp a b \<le> 0) (insert_by cmp x xs)"
  using sorted
proof (induction xs)
  case Nil
  then show ?case by simp
next
  case (Cons y ys)
  show ?case
  proof (cases "cmp x y \<le> 0")
    case True
    then have "\<forall>z\<in>set ys. cmp x z \<le> 0"
      using Cons.prems trans by auto
    with True Cons.prems show ?thesis by simp
  next
    case False
    then have "cmp y x \<le> 0" using tot [of x y] by simp
    with False Cons show ?thesis by (auto simp: set_insert_by)
  qed
qed

lemma sorted_wrt_sort_by:
  assumes "\<And>a b. cmp a b \<le> 0 \<or> cmp b a \<le> 0"
    and "\<And>a b c. cmp a b \<le> 0 \<Longrightarrow> cmp b c \<le> 0 \<Longrightarrow> cmp a c \<le> 0"
  shows "sorted_wrt (\<lambda>a b. cmp a b \<le> 0) (sort_by cmp xs)"
proof (induction xs)
  case Nil
  then show ?case by (simp add: sort_by_def)
next
  case (Cons x xs)
  have "sort_by cmp (x # xs) = insert_by cmp x (sort_by cmp xs)"
    by (simp add: sort_by_def)
  with Cons assms show ?case
    by (simp add: sorted_wrt_insert_by)
qed

section \<open>Impact of a vacation range: theorems\<close>

lemma impactCompare_total: "impactCompare a b \<le> 0 \<or> impactCompare b a \<le> 0"
  by (auto simp: impactCompare_def)

lemma impactCompare_trans:
  "impactCompare a b \<le> 0 \<Longrightarrow> impactCompare b c \<le> 0 \<Longrightarrow> impactCompare a c \<le> 0"
  by (auto simp: impactCompare_def split: if_splits)

lemma impactCompare_le_iff:
  "impactCompare a b \<le> 0 \<longleftrightarrow>
     (if isNoData a \<noteq> isNoData b then isNoData b
      else if breachesThreshold a \<noteq> breachesThreshold b then breachesThreshold a
      else drop' b \<le> drop' a)"
  by (auto simp: impactCompare_def)

lemma impacts_calculateVacationImpact:
  "\<exists>entries. impacts (calculateVacationImpact days timetable subjectMap g st) =
      sort_by impactCompare (collectImpacts subjectMap g st entries)"
  by (auto simp: calculateVacationImpact_def split: prod.splits)

lemma collectImpacts_code:
  "imp \<in> set (collectImpacts subjectMap g st entries) \<Longrightarrow>
     (\<exists>n. (code imp, n) \<in> set entries) \<and> subjectMap (code imp) \<noteq> None"
proof (induction entries)
  case Nil
  then show ?case by simp
next
  case (Cons e entries)
  obtain c n where e: "e = (c, n)" by (cases e)
  show ?case
  proof (cases "subjectMap c")
    case None
    with Cons e show ?thesis by auto
  next
    case (Some subject)
    with Cons e show ?thesis
      by (cases "total' subject = 0") (auto simp: Let_def)
  qed
qed

lemma impacts_have_subject:
  "imp \<in> set (impacts (calculateVacationImpact days timetable subjectMap g st)) \<Longrightarrow>
     subjectMap (code imp) \<noteq> None"
  using impacts_calculateVacationImpact [of days timetable subjectMap g st]
  by (auto simp: set_sort_by dest: collectImpacts_code)

lemma ex_monday_days:
  "ex_monday =
     [\<lparr> date = 4, jsDay = 1, timetableDayIndex = 0, isSunday = False, isHoliday = False \<rparr>]"
  by (simp add: ex_monday_def getVacationDays_def mkVacationDay_def getDay_def)

lemma ex_impacts:
  "impacts (calculateVacationImpact ex_monday ex_timetable ex_subjects 75 Map.empty) =
     [\<lparr> code = ''CS103'', name = ''Networks'', classCount = 1, currentPct = 60,
        projectedPct = 600 / 11, drop' = 60 / 11, currentBunkable = Num 0,
        projectedBunkable = Num 0, breachesThreshold = True, isNoData = False \<rparr>,
      \<lparr> code = ''CS102'', name = ''Databases'', classCount = 1, currentPct = 50,
        projectedPct = 500 / 11, drop' = 50 / 11, currentBunkable = Num 0,
        projectedBunkable = Num 0, breachesThreshold = True, isNoData = False \<rparr>,
      \<lparr> code = ''CS101'', name = ''Algorithms'', classCount = 1, currentPct = 90,
        projectedPct = 900 / 11, drop' = 90 / 11, currentBunkable = Num 2,
        projectedBunkable = Num 1, breachesThreshold = False, isNoData = False \<rparr>,
      \<lparr> code = ''CS104'', name = ''Compilers'', classCount = 1, currentPct = 0,
        projectedPct = 0, drop' = 0, currentBunkable = Num 0,
        projectedBunkable = Num 0, breachesThreshold = False, isNoData = True \<rparr>,
      \<lparr> code = ''CS105'', name = ''Graphics'', classCount = 1, currentPct = 0,
        projectedPct = 0, drop' = 0, currentBunkable = Num 0,
        projectedBunkable = Num 0, breachesThreshold = False, isNoData = True \<rparr>]"
  by (simp add: ex_monday_days calculateVacationImpact_def tallyDay_def ex_timetable_def
      ex_subjects_def getEffectiveThreshold_def getSubjectKey_def Let_def
      calculateClassesToBunk_def jsub_def sort_by_def impactCompare_def)

lemma ex_totalClasses:
  "VacationImpactResult.totalClasses
     (calculateVacationImpact ex_monday ex_timetable ex_subjects 75 Map.empty) = 6"
  by (simp add: ex_monday_days calculateVacationImpact_def tallyDay_def ex_timetable_def
      split: prod.splits)

text \<open>
  C6. In the impacts list returned by \<open>calculateVacationImpact\<close>, every no-data entry
  comes after every data entry; among data entries, every entry that breaches its
  threshold comes before every entry that does not; and within each group the entries
  are in descending order of \<open>drop\<close>. Stated for two positions \<open>i < j\<close> of the list.
\<close>

theorem impacts_sorted:
  assumes "L = impacts (calculateVacationImpact days timetable subjectMap g st)"
    and "i < j" and "j < length L"
  shows "(isNoData (L ! i) \<longrightarrow> isNoData (L ! j)) \<and>
         (\<not> isNoData (L ! i) \<and> \<not> isNoData (L ! j) \<and> breachesThreshold (L ! j)
            \<longrightarrow> breachesThreshold (L ! i)) \<and>
         (isNoData (L ! i) = isNoData (L ! j) \<and>
          breachesThreshold (L ! i) = breachesThreshold (L ! j)
            \<longrightarrow> drop' (L ! j) \<le> drop' (L ! i))"
proof -
  obtain entries where "L = sort_by impactCompare (collectImpacts subjectMap g st entries)"
    using assms(1) impacts_calculateVacationImpact by blast
  then have "sorted_wrt (\<lambda>a b. impactCompare a b \<le> 0) L"
    using sorted_wrt_sort_by [of impactCompare] impactCompare_total impactCompare_trans
    by blast
  then have "impactCompare (L ! i) (L ! j) \<le> 0"
    using assms(2,3) by (simp add: sorted_wrt_iff_nth_less)
  then show ?thesis
    by (auto simp: impactCompare_le_iff split: if_splits)
qed

text \<open>
  C6 on the worked example: positions 0 and 1 are two breaching entries, positions 3
  and 4 two no-data entries.
\<close>

theorem impacts_sorted_witness:
  "let L = impacts (calculateVacationImpact ex_monday ex_timetable ex_subjects 75 Map.empty)
   in (0::nat) < 1 \<and> 1 < length L \<and> (3::nat) < 4 \<and> 4 < length L \<and>
      breachesThreshold (L ! 0) \<and> drop' (L ! 1) \<le> drop' (L ! 0) \<and> isNoData (L ! 4)"
proof -
  define L where
    "L = impacts (calculateVacationImpact ex_monday ex_timetable ex_subjects 75 Map.empty)"
  have len: "1 < length L" "4 < length L"
    by (simp_all add: L_def ex_impacts)
  have pre: "\<not> isNoData (L ! 0)" "\<not> isNoData (L ! 1)" "breachesThreshold (L ! 1)"
    "isNoData (L ! 3)"
    by (simp_all add: L_def ex_impacts)
  have b0: "breachesThreshold (L ! 0)"
    using impacts_sorted [OF L_def, of 0 1] len pre by simp
  have d: "drop' (L ! 1) \<le> drop' (L ! 0)"
    using impacts_sorted [OF L_def, of 0 1] len pre b0 by simp
  have n: "isNoData (L ! 4)"
    using impacts_sorted [OF L_def, of 3 4] len pre by simp
  show ?thesis
    unfolding Let_def L_def [symmetric] using len b0 d n by simp
qed

text \<open>
  C9. A subject code with no subject in the subject map has no entry in the impacts
  list of \<open>calculateVacationImpact\<close>, whatever the days and the timetable are. The
  function has no failing branch: it returns a result for every input.
\<close>

theorem unknown_code_dropped:
  assumes "subjectMap c = None"
  shows "c \<notin> code ` set (impacts (calculateVacationImpact days timetable subjectMap g st))"
  using assms impacts_have_subject by fastforce

text \<open>
  C9 on the worked example: \<open>GHOST\<close> is scheduled on Monday and counted among the six
  missed classes, and no impact carries its code.
\<close>

theorem unknown_code_dropped_witness:
  "ex_subjects ''GHOST'' = None \<and>
   ''GHOST'' \<in> set (the (ex_timetable 0)) \<and>
   VacationImpactResult.totalClasses
     (calculateVacationImpact ex_monday ex_timetable ex_subjects 75 Map.empty) = 6 \<and>
   ''GHOST'' \<notin> code ` set (impacts
     (calculateVacationImpact ex_monday ex_timetable ex_subjects 75 Map.empty))"
proof -
  have none: "ex_subjects ''GHOST'' = None"
    by (simp add: ex_subjects_def)
  have slot: "''GHOST'' \<in> set (the (ex_timetable 0))"
    by (simp add: ex_timetable_def)
  from unknown_code_dropped [where subjectMap = ex_subjects and c = "''GHOST''"
         and days = ex_monday and timetable = ex_timetable and g = 75 and st = Map.empty]
       none slot ex_totalClasses
  show ?thesis by simp
qed

section \<open>Search for the best vacation windows: theorems\<close>

lemma penaltyLoop_sum:
  assumes "\<forall>i\<in>set L. \<not> isNoData i \<longrightarrow> subjectMap (code i) \<noteq> None"
  shows "penaltyLoop subjectMap g st L p =
           Inr (p + sum_list (map (impactPenalty subjectMap g st)
                                (filter (\<lambda>i. \<not> isNoData i) L)))"
  using assms
proof (induction L arbitrary: p)
  case Nil
  then show ?case by simp
next
  case (Cons i L)
  show ?case
  proof (cases "isNoData i")
    case True
    with Cons show ?thesis by simp
  next
    case False
    with Cons.prems obtain subject where s: "subjectMap (code i) = Some subject"
      by auto
    have "penaltyLoop subjectMap g st (i # L) p =
            penaltyLoop subjectMap g st L (p + impactPenalty subjectMap g st i)"
      using False s by (simp add: impactPenalty_def weightOf_def Let_def)
    also have "\<dots> = Inr (p + impactPenalty subjectMap g st i
                 + sum_list (map (impactPenalty subjectMap g st)
                               (filter (\<lambda>i. \<not> isNoData i) L)))"
      using Cons by simp
    finally show ?thesis using False by (simp add: add.assoc)
  qed
qed

lemma scoreWindow_result:
  "\<exists>w. scoreWindow timetable subjectMap g st current sz = Inr w \<and>
       startDate w = current \<and> endDate w = current + sz - 1 \<and> duration w = sz \<and>
       penalty w = windowPenalty timetable subjectMap g st w"
proof -
  let ?r = "calculateVacationImpact (getVacationDays current (current + sz - 1) {})
              timetable subjectMap g st"
  have "\<forall>i\<in>set (impacts ?r). \<not> isNoData i \<longrightarrow> subjectMap (code i) \<noteq> None"
    using impacts_have_subject by blast
  then have "penaltyLoop subjectMap g st (impacts ?r) 0 =
      Inr (0 + sum_list (map (impactPenalty subjectMap g st)
                           (filter (\<lambda>i. \<not> isNoData i) (impacts ?r))))"
    by (rule penaltyLoop_sum)
  then show ?thesis
    by (simp add: scoreWindow_def Let_def windowPenalty_def)
qed

lemma scanWindows_result:
  "\<exists>ws. scanWindows timetable subjectMap g st endScan sz current cands = Inr (cands @ ws) \<and>
        (\<forall>w\<in>set ws. \<exists>c. scoreWindow timetable subjectMap g st c sz = Inr w)"
proof (induction timetable subjectMap g st endScan sz current cands
        rule: scanWindows.induct)
  case (1 timetable subjectMap g st endScan sz current cands)
  show ?case
  proof (cases "current + sz - 1 > endScan")
    case True
    then show ?thesis by simp
  next
    case False
    obtain w where w: "scoreWindow timetable subjectMap g st current sz = Inr w"
      using scoreWindow_result by blast
    from "1.IH" [OF False w] obtain ws where
      ws: "scanWindows timetable subjectMap g st endScan sz (current + 1) (cands @ [w])
             = Inr ((cands @ [w]) @ ws)"
      and all: "\<forall>w\<in>set ws. \<exists>c. scoreWindow timetable subjectMap g st c sz = Inr w"
      by blast
    have "scanWindows timetable subjectMap g st endScan sz current cands
            = Inr (cands @ (w # ws))"
      using False w ws by (subst scanWindows.simps) simp
    moreover have "\<forall>v\<in>set (w # ws). \<exists>c. scoreWindow timetable subjectMap g st c sz = Inr v"
      using w all by auto
    ultimately show ?thesis by blast
  qed
qed

lemma scanWindows_none_fits:
  "endScan < current + sz - 1 \<Longrightarrow>
     scanWindows timetable subjectMap g st endScan sz current cands = Inr cands"
  by (subst scanWindows.simps) simp

lemma scanSizes_result:
  "\<exists>ws. scanSizes timetable subjectMap g st today endScan sizes cands = Inr (cands @ ws) \<and>
        (\<forall>w\<in>set ws. \<exists>c sz. scoreWindow timetable subjectMap g st c sz = Inr w)"
proof (induction sizes arbitrary: cands)
  case Nil
  then show ?case by simp
next
  case (Cons sz sizes)
  obtain ws1 where
    ws1: "scanWindows timetable subjectMap g st endScan sz (today + 1) cands
            = Inr (cands @ ws1)"
    and all1: "\<forall>w\<in>set ws1. \<exists>c. scoreWindow timetable subjectMap g st c sz = Inr w"
    using scanWindows_result by blast
  from Cons.IH [of "cands @ ws1"] obtain ws2 where
    ws2: "scanSizes timetable subjectMap g st today endScan sizes (cands @ ws1)
            = Inr ((cands @ ws1) @ ws2)"
    and all2: "\<forall>w\<in>set ws2. \<exists>c sz. scoreWindow timetable subjectMap g st c sz = Inr w"
    by blast
  have "scanSizes timetable subjectMap g st today endScan (sz # sizes) cands
          = Inr (cands @ (ws1 @ ws2))"
    using ws1 ws2 by simp
  moreover have "\<forall>w\<in>set (ws1 @ ws2). \<exists>c sz. scoreWindow timetable subjectMap g st c sz = Inr w"
    using all1 all2 by (metis Un_iff set_append)
  ultimately show ?case by blast
qed

lemma scanSizes_none_fits:
  "\<forall>sz\<in>set sizes. endScan < today + sz \<Longrightarrow>
     scanSizes timetable subjectMap g st today endScan sizes cands = Inr cands"
  by (induction sizes arbitrary: cands) (simp_all add: scanWindows_none_fits)

lemma scanCandidates_result:
  "\<exists>cands. scanCandidates today timetable subjectMap g st sizes weeks = Inr cands \<and>
        (\<forall>w\<in>set cands. \<exists>c sz. scoreWindow timetable subjectMap g st c sz = Inr w)"
  using scanSizes_result [of timetable subjectMap g st today _ sizes "[]"]
  by (simp add: scanCandidates_def Let_def)

lemma ex_candidates:
  "scanCandidates 3 ex_timetable ex_subjects 75 Map.empty [7] 1 =
     Inr [\<lparr> startDate = 4, endDate = 10, duration = 7, totalClasses = 6,
            atRiskCount = 2, penalty = 420 / 11 \<rparr>]"
  by (simp add: scanCandidates_def scoreWindow_def
      getVacationDays_def mkVacationDay_def getDay_def
      calculateVacationImpact_def tallyDay_def ex_timetable_def
      ex_subjects_def getEffectiveThreshold_def getSubjectKey_def Let_def
      calculateClassesToBunk_def jsub_def sort_by_def impactCompare_def)

text \<open>
  C5. The penalty of every candidate window scored by \<open>findBestVacationWindows\<close> is the
  sum, over the impacts of the window that are not no-data, of
  \<open>drop * weight * classCount\<close>, where the margin of an impact is \<open>currentPct\<close> minus
  the effective threshold of its subject and the weight is 3 for a margin below 0, 2 for
  a margin from 0 to below 5, and 1 otherwise. Every impact of the window names a subject
  of the subject map, so the effective threshold is defined.
\<close>

theorem candidate_penalty:
  assumes "scanCandidates today timetable subjectMap g st sizes weeks = Inr cands"
    and "w \<in> set cands"
  shows "penalty w = windowPenalty timetable subjectMap g st w \<and>
         (\<forall>i\<in>set (impacts (calculateVacationImpact
                      (getVacationDays (startDate w) (endDate w) {})
                      timetable subjectMap g st)).
            subjectMap (code i) \<noteq> None)"
proof -
  from scanCandidates_result [of today timetable subjectMap g st sizes weeks] assms
  obtain c sz where "scoreWindow timetable subjectMap g st c sz = Inr w"
    by auto
  then have "penalty w = windowPenalty timetable subjectMap g st w"
    using scoreWindow_result [of timetable subjectMap g st c sz] by auto
  then show ?thesis using impacts_have_subject by blast
qed

text \<open>
  C5 on the worked example: the one window of 7 days from Monday has penalty
  \<open>(60/11) * 3 + (50/11) * 3 + (90/11) * 1 = 420/11\<close>.
\<close>

theorem candidate_penalty_witness:
  "scanCandidates 3 ex_timetable ex_subjects 75 Map.empty [7] 1 =
     Inr [\<lparr> startDate = 4, endDate = 10, duration = 7, totalClasses = 6,
            atRiskCount = 2, penalty = 420 / 11 \<rparr>] \<and>
   windowPenalty ex_timetable ex_subjects 75 Map.empty
     \<lparr> startDate = 4, endDate = 10, duration = 7, totalClasses = 6,
       atRiskCount = 2, penalty = 420 / 11 \<rparr> = 420 / 11"
  using candidate_penalty [OF ex_candidates, of
          "\<lparr> startDate = 4, endDate = 10, duration = 7, totalClasses = 6,
             atRiskCount = 2, penalty = 420 / 11 \<rparr>"] ex_candidates
  by simp

lemma overlaps_sym: "overlaps a b = overlaps b a"
  by (auto simp: overlaps_def)

lemma selectWindows_invariant:
  assumes "sorted_wrt (\<lambda>a b. \<not> overlaps b a) results" and "length results \<le> 2"
  shows "sorted_wrt (\<lambda>a b. \<not> overlaps b a) (selectWindows cs results) \<and>
         length (selectWindows cs results) \<le> 3"
  using assms
proof (induction cs arbitrary: results)
  case Nil
  then show ?case by simp
next
  case (Cons c cs)
  show ?case
  proof (cases "list_ex (\<lambda>r. overlaps c r) results")
    case True
    with Cons show ?thesis by simp
  next
    case False
    then have free: "\<forall>r\<in>set results. \<not> overlaps c r"
      by (simp add: list_ex_iff)
    with Cons.prems have s: "sorted_wrt (\<lambda>a b. \<not> overlaps b a) (results @ [c])"
      by (simp add: sorted_wrt_append)
    show ?thesis
    proof (cases "length (results @ [c]) \<ge> 3")
      case True
      with False s Cons.prems show ?thesis by (simp add: Let_def)
    next
      case stop: False
      then have "length (results @ [c]) \<le> 2" by simp
      with Cons.IH [OF s] False stop show ?thesis by (simp add: Let_def)
    qed
  qed
qed

lemma ex_best:
  "findBestVacationWindows 3 ex_timetable ex_subjects 75 Map.empty (Some [3]) (Some 1) =
     Inr [\<lparr> startDate = 5, endDate = 7, duration = 3, totalClasses = 0,
            atRiskCount = 0, penalty = 0 \<rparr>,
          \<lparr> startDate = 8, endDate = 10, duration = 3, totalClasses = 0,
            atRiskCount = 0, penalty = 0 \<rparr>]"
  by (simp add: findBestVacationWindows_def scanCandidates_def scoreWindow_def
      getVacationDays_def mkVacationDay_def getDay_def
      calculateVacationImpact_def tallyDay_def ex_timetable_def
      ex_subjects_def getEffectiveThreshold_def getSubjectKey_def Let_def
      calculateClassesToBunk_def jsub_def sort_by_def impactCompare_def overlaps_def)

text \<open>
  C1. For every timetable, subject map, thresholds, window sizes and number of weeks,
  \<open>findBestVacationWindows\<close> returns a list of at most 3 windows, and no two windows of
  the list overlap, where a window \<open>c\<close> overlaps a window \<open>r\<close> iff
  \<open>c.start \<le> r.end\<close> and \<open>c.end \<ge> r.start\<close>.
\<close>

theorem windows_do_not_overlap:
  "\<exists>ws. findBestVacationWindows today timetable subjectMap g st windowSizes_arg weeksAhead_arg
          = Inr ws \<and>
        length ws \<le> 3 \<and>
        (\<forall>i j. i < length ws \<and> j < length ws \<and> i \<noteq> j \<longrightarrow> \<not> overlaps (ws ! i) (ws ! j))"
proof -
  let ?sizes = "case windowSizes_arg of None \<Rightarrow> [3, 5, 7] | Some ws \<Rightarrow> ws"
  let ?weeks = "case weeksAhead_arg of None \<Rightarrow> 3 | Some n \<Rightarrow> n"
  obtain cands where
    c: "scanCandidates today timetable subjectMap g st ?sizes ?weeks = Inr cands"
    using scanCandidates_result by blast
  define ws where "ws = selectWindows (sort_by (\<lambda>a b. penalty a - penalty b) cands) []"
  have r: "findBestVacationWindows today timetable subjectMap g st windowSizes_arg
             weeksAhead_arg = Inr ws"
    using c by (simp add: findBestVacationWindows_def Let_def ws_def)
  have inv: "sorted_wrt (\<lambda>a b. \<not> overlaps b a) ws" and len: "length ws \<le> 3"
    using selectWindows_invariant [of "[]"] by (simp_all add: ws_def)
  have "\<not> overlaps (ws ! i) (ws ! j)" if "i < length ws" "j < length ws" "i \<noteq> j" for i j
  proof (cases "i < j")
    case True
    then have "\<not> overlaps (ws ! j) (ws ! i)"
      using inv that by (simp add: sorted_wrt_iff_nth_less)
    then show ?thesis by (simp add: overlaps_sym)
  next
    case False
    then have "j < i" using that by simp
    then show ?thesis
      using inv that by (simp add: sorted_wrt_iff_nth_less)
  qed
  with r len show ?thesis by blast
qed

text \<open>
  C1 on the worked example, with windows of 3 days and one week ahead: the windows of
  days 5 to 7 and 8 to 10 are returned, and they do not overlap.
\<close>

theorem windows_do_not_overlap_witness:
  "findBestVacationWindows 3 ex_timetable ex_subjects 75 Map.empty (Some [3]) (Some 1) =
     Inr [\<lparr> startDate = 5, endDate = 7, duration = 3, totalClasses = 0,
            atRiskCount = 0, penalty = 0 \<rparr>,
          \<lparr> startDate = 8, endDate = 10, duration = 3, totalClasses = 0,
            atRiskCount = 0, penalty = 0 \<rparr>] \<and>
   \<not> overlaps \<lparr> startDate = 8, endDate = 10, duration = 3, totalClasses = 0,
                 atRiskCount = 0, penalty = 0 \<rparr>
               \<lparr> startDate = 5, endDate = 7, duration = 3, totalClasses = 0,
                 atRiskCount = 0, penalty = 0 \<rparr>"
proof -
  from windows_do_not_overlap [of 3 ex_timetable ex_subjects 75 Map.empty "Some [3]" "Some 1"]
  obtain ws where
    r: "findBestVacationWindows 3 ex_timetable ex_subjects 75 Map.empty (Some [3]) (Some 1)
          = Inr ws"
    and n: "\<forall>i j. i < length ws \<and> j < length ws \<and> i \<noteq> j \<longrightarrow> \<not> overlaps (ws ! i) (ws ! j)"
    by blast
  from r have ws: "ws = [\<lparr> startDate = 5, endDate = 7, duration = 3, totalClasses = 0,
                           atRiskCount = 0, penalty = 0 \<rparr>,
                         \<lparr> startDate = 8, endDate = 10, duration = 3, totalClasses = 0,
                           atRiskCount = 0, penalty = 0 \<rparr>]"
    by (simp add: ex_best)
  have "(1::nat) < length ws \<and> (0::nat) < length ws \<and> (1::nat) \<noteq> 0"
    by (simp add: ws)
  with n have "\<not> overlaps (ws ! 1) (ws ! 0)" by blast
  then show ?thesis using ex_best by (simp add: ws)
qed

text \<open>
  C8, amended. When no window fits within the scan horizon, that is, when every window
  size is greater than \<open>weeksAhead * 7\<close>, \<open>findBestVacationWindows\<close> returns the empty
  list and no error. (An omitted argument has its default: sizes 3, 5, 7 and 3 weeks.)
\<close>

theorem no_window_fits:
  assumes "\<forall>sz\<in>set (case windowSizes_arg of None \<Rightarrow> [3, 5, 7] | Some ws \<Rightarrow> ws).
             (case weeksAhead_arg of None \<Rightarrow> 3 | Some n \<Rightarrow> n) * 7 < sz"
  shows "findBestVacationWindows today timetable subjectMap g st windowSizes_arg
           weeksAhead_arg = Inr []"
proof -
  let ?sizes = "case windowSizes_arg of None \<Rightarrow> [3, 5, 7] | Some ws \<Rightarrow> ws"
  let ?weeks = "case weeksAhead_arg of None \<Rightarrow> 3 | Some n \<Rightarrow> n"
  have "\<forall>sz\<in>set ?sizes. today + ?weeks * 7 < today + sz"
    using assms by simp
  then have "scanCandidates today timetable subjectMap g st ?sizes ?weeks = Inr []"
    by (simp add: scanCandidates_def Let_def scanSizes_none_fits)
  then show ?thesis
    by (simp add: findBestVacationWindows_def sort_by_def)
qed

text \<open>
  C8, amended, with the default sizes and no week ahead, and with sizes 8 and 9 and one
  week ahead.
\<close>

theorem no_window_fits_witness:
  "findBestVacationWindows 3 ex_timetable ex_subjects 75 Map.empty None (Some 0) = Inr [] \<and>
   findBestVacationWindows 3 ex_timetable ex_subjects 75 Map.empty (Some [8, 9]) (Some 1)
     = Inr []"
  using no_window_fits [of None "Some 0" 3 ex_timetable ex_subjects 75 Map.empty]
        no_window_fits [of "Some [8, 9]" "Some 1" 3 ex_timetable ex_subjects 75 Map.empty]
  by simp

text \<open>
  C8 as stated fails for the sizes 7 and 8 with one week ahead: \<open>weeksAhead * 7 = 7\<close>
  is less than the greatest size, 8, but the window of 7 days from tomorrow fits and is
  returned.
\<close>

theorem max_size_counterexample:
  "(1::int) * 7 < Max (set [7, 8]) \<and>
   findBestVacationWindows 0 Map.empty Map.empty 75 Map.empty (Some [7, 8]) (Some 1) =
     Inr [\<lparr> startDate = 1, endDate = 7, duration = 7, totalClasses = 0,
            atRiskCount = 0, penalty = 0 \<rparr>] \<and>
   findBestVacationWindows 0 Map.empty Map.empty 75 Map.empty (Some [7, 8]) (Some 1) \<noteq> Inr []"
  by (simp add: findBestVacationWindows_def scanCandidates_def scoreWindow_def
      getVacationDays_def mkVacationDay_def getDay_def
      calculateVacationImpact_def tallyDay_def Let_def sort_by_def overlaps_def)

end
